theory Spec2Isabelle
  imports Main "HOL-Library.AList" "HOL-Library.Word"
begin

section \<open>Metric configuration: interval accessors\<close>

text \<open>
  Go's \<open>time.Duration\<close> is a signed 64-bit count of nanoseconds; its comparisons are the
  signed ones (\<open>\<le>s\<close> on words).
\<close>

type_synonym Duration = "64 word"

definition Second :: Duration where
  "Second = 1000000000"

definition defaultGlobalInterval :: Duration where
  "defaultGlobalInterval = 60 * Second"

text \<open>
  The struct \<open>MetricConfig\<close>. A Go map may be \<open>nil\<close>: \<open>LevelInterval\<close> is \<open>None\<close> then.
\<close>

record MetricConfig =
  Manager :: string
  MaxSubCategoryCount :: int
  GlobalInterval :: Duration
  LevelInterval :: "(int \<rightharpoonup> Duration) option"
  MaxMetricCountPerRegistry :: int
  MaxCompassErrorCodeCount :: int
  MaxCompassAddonCount :: int

definition GetGlobalInterval :: "MetricConfig \<Rightarrow> Duration" where
  "GetGlobalInterval mc =
     (if GlobalInterval mc \<le>s Second then defaultGlobalInterval else GlobalInterval mc)"

definition GetLevelInterval :: "MetricConfig \<Rightarrow> int \<Rightarrow> Duration" where
  "GetLevelInterval mc metricLevel =
     (case LevelInterval mc of
        None \<Rightarrow> GetGlobalInterval mc
      | Some m \<Rightarrow>
          (case m metricLevel of
             Some result \<Rightarrow> if Second \<le>s result then result else GetGlobalInterval mc
           | None \<Rightarrow> GetGlobalInterval mc))"

section \<open>Service instances and their identifiers\<close>

text \<open>
  Modelled from the spec: the ServiceInstance value model (the \<open>registry\<close> package that
  declares the interface is not among the sources). The fields are named after the
  accessors the source calls: \<open>GetId\<close>, \<open>GetServiceName\<close>, \<open>GetHost\<close>, \<open>GetPort\<close>.
\<close>

record ServiceInstance =
  GetId :: string
  GetServiceName :: string
  GetHost :: string
  GetPort :: int
  GetMetadata :: "string \<rightharpoonup> string"
  IsHealthy :: bool

text \<open>
  \<open>strconv.Itoa\<close> (Go's standard library): the decimal rendering of an integer, with a
  leading minus sign for a negative one.
\<close>

definition digit_char :: "nat \<Rightarrow> char" where
  "digit_char d = ''0123456789'' ! d"

fun FormatUint :: "nat \<Rightarrow> string" where
  "FormatUint n =
     (if n < 10 then [digit_char n] else FormatUint (n div 10) @ [digit_char (n mod 10)])"

declare FormatUint.simps [simp del]

definition Itoa :: "int \<Rightarrow> string" where
  "Itoa i = (if i < 0 then CHR ''-'' # FormatUint (nat (- i)) else FormatUint (nat i))"

definition getServiceInstanceId :: "ServiceInstance \<Rightarrow> string" where
  "getServiceInstanceId si =
     (if GetId si = '''' then GetHost si @ ''.'' @ Itoa (GetPort si) else GetId si)"

definition getServiceName :: "ServiceInstance \<Rightarrow> string" where
  "getServiceName si = GetServiceName si"

section \<open>The configuration store\<close>

text \<open>
  Errors are values. \<open>New\<close> and \<open>WithStack\<close> are the constructors of the \<open>perrors\<close>
  package the source calls; the other three are the error kinds the store and the JSON
  codec report.
\<close>

datatype error =
    New string
  | WithStack error
  | NotFoundError
  | StoreIOError
  | SerializationError

text \<open>
  A Go slice may be \<open>nil\<close>: \<open>None\<close> is the \<open>nil\<close> slice, \<open>Some xs\<close> an allocated one.
\<close>

type_synonym 'a slice = "'a list option"

definition elems :: "'a slice \<Rightarrow> 'a list" where
  "elems s = (case s of None \<Rightarrow> [] | Some xs \<Rightarrow> xs)"

text \<open>
  The listener the constructor attaches to the store for every instance it finds
  (the source: "like java do nothing").
\<close>

datatype ConfigurationListener = RegistryConfigurationListener

text \<open>
  Modelled from the spec: the file-backed configuration store
  \<open>file.FileSystemDynamicConfiguration\<close> (package \<open>config_center/file\<close>, not among the
  sources), as section 4.1 of the spec gives its contract. The state is the set of
  records on disk, one per (group, key), in listing order, the group directories under
  the root, and the listeners attached to keys. Every operation that returns an error can fail for reasons of the environment
  (\<open>StoreIOError\<close>); the fault fields say which calls do, so that every theorem below
  holds for every way the environment can fail.
\<close>

record FileSystemDynamicConfiguration =
  files :: "((string \<times> string) \<times> string) list"
  dirs :: "string list"
  configListeners :: "((string \<times> string) \<times> ConfigurationListener) list"
  root :: string
  closed :: bool
  publishFault :: "string \<Rightarrow> string \<Rightarrow> error option"
  removeFault :: "string \<Rightarrow> string \<Rightarrow> error option"
  readFault :: "string \<Rightarrow> string \<Rightarrow> error option"
  listFault :: "string \<Rightarrow> error option"
  closeFault :: "error option"
  osRemoveFault :: "string \<Rightarrow> error option"

text \<open>
  \<open>PublishConfig(key, group, content)\<close>: writes or overwrites the record, and creates
  the group directory if absent.
\<close>

definition PublishConfig ::
  "FileSystemDynamicConfiguration \<Rightarrow> string \<Rightarrow> string \<Rightarrow> string
     \<Rightarrow> error + FileSystemDynamicConfiguration" where
  "PublishConfig d key grp content =
     (case publishFault d key grp of
        Some err \<Rightarrow> Inl err
      | None \<Rightarrow>
          Inr (d\<lparr>files := AList.update (grp, key) content (files d),
                 dirs := (if grp \<in> set (dirs d) then dirs d else dirs d @ [grp])\<rparr>))"

text \<open>
  \<open>RemoveConfig(key, group)\<close>: deletes the record; an absent record is not an error. The
  group directory stays.
\<close>

definition RemoveConfig ::
  "FileSystemDynamicConfiguration \<Rightarrow> string \<Rightarrow> string
     \<Rightarrow> error + FileSystemDynamicConfiguration" where
  "RemoveConfig d key grp =
     (case removeFault d key grp of
        Some err \<Rightarrow> Inl err
      | None \<Rightarrow> Inr (d\<lparr>files := AList.delete (grp, key) (files d)\<rparr>))"

text \<open>\<open>GetProperties(key, group)\<close>: the raw content, \<open>NotFoundError\<close> if absent.\<close>

definition GetProperties ::
  "FileSystemDynamicConfiguration \<Rightarrow> string \<Rightarrow> string \<Rightarrow> error + string" where
  "GetProperties d key grp =
     (case readFault d key grp of
        Some err \<Rightarrow> Inl err
      | None \<Rightarrow>
          (case map_of (files d) (grp, key) of
             None \<Rightarrow> Inl NotFoundError
           | Some content \<Rightarrow> Inr content))"

text \<open>
  \<open>GetConfigKeysByGroup(group)\<close>: the set of keys under the group, empty (not an error)
  if the group does not exist. The set is listed without repetition.
\<close>

definition GetConfigKeysByGroup ::
  "FileSystemDynamicConfiguration \<Rightarrow> string \<Rightarrow> error + string list" where
  "GetConfigKeysByGroup d grp =
     (case listFault d grp of
        Some err \<Rightarrow> Inl err
      | None \<Rightarrow> Inr (remdups (map (snd \<circ> fst) (filter (\<lambda>r. fst (fst r) = grp) (files d)))))"

text \<open>The store's \<open>AddListener(key, listener, group)\<close>; several listeners per key are permitted.\<close>

definition AddListener_config ::
  "FileSystemDynamicConfiguration \<Rightarrow> string \<Rightarrow> ConfigurationListener \<Rightarrow> string
     \<Rightarrow> FileSystemDynamicConfiguration" where
  "AddListener_config d key listener grp =
     d\<lparr>configListeners := configListeners d @ [((grp, key), listener)]\<rparr>"

definition RootPath :: "FileSystemDynamicConfiguration \<Rightarrow> string" where
  "RootPath d = root d"

text \<open>\<open>GetPath(key, group)\<close>: the file of a record, \<open><root>/<group>/<key>\<close>.\<close>

definition GetPath :: "FileSystemDynamicConfiguration \<Rightarrow> string \<Rightarrow> string \<Rightarrow> string" where
  "GetPath d key grp = root d @ ''/'' @ grp @ ''/'' @ key"

text \<open>\<open>Close()\<close> returns its error, if any, next to the store.\<close>

definition Close ::
  "FileSystemDynamicConfiguration \<Rightarrow> error option \<times> FileSystemDynamicConfiguration" where
  "Close d =
     (case closeFault d of
        Some err \<Rightarrow> (Some err, d)
      | None \<Rightarrow> (None, d\<lparr>closed := True\<rparr>))"

text \<open>
  \<open>os.Remove(name)\<close> on the same disk: deletes the record whose file has that path, and
  fails when the environment does or when there is no such file.
\<close>

definition os_Remove ::
  "FileSystemDynamicConfiguration \<Rightarrow> string \<Rightarrow> error option \<times> FileSystemDynamicConfiguration" where
  "os_Remove d name =
     (case osRemoveFault d name of
        Some err \<Rightarrow> (Some err, d)
      | None \<Rightarrow>
          (let kept = filter (\<lambda>r. GetPath d (snd (fst r)) (fst (fst r)) \<noteq> name) (files d)
           in if length kept = length (files d) then (Some NotFoundError, d)
              else (None, d\<lparr>files := kept\<rparr>)))"

section \<open>The file-backed service discovery\<close>

text \<open>
  \<open>encoding/json\<close> (Go's standard library) is a parameter of the operations: the encoder
  and the decoder of service instances.
\<close>

record json =
  Marshal :: "ServiceInstance \<Rightarrow> error + string"
  Unmarshal :: "string \<Rightarrow> error + ServiceInstance"

text \<open>
  The struct \<open>fileSystemServiceDiscovery\<close>. \<open>fileMap\<close> is iterated by \<open>Destroy\<close>, so it is
  an association list (looked up with \<open>map_of\<close>).
\<close>

record fileSystemServiceDiscovery =
  dynamicConfiguration :: FileSystemDynamicConfiguration
  rootPath :: string
  fileMap :: "(string \<times> string) list"

definition releaseAndRemoveRegistrationFiles ::
  "fileSystemServiceDiscovery \<Rightarrow> string \<Rightarrow> fileSystemServiceDiscovery" where
  "releaseAndRemoveRegistrationFiles fssd file =
     fssd\<lparr>dynamicConfiguration := snd (os_Remove (dynamicConfiguration fssd) file)\<rparr>"

text \<open>
  \<open>Destroy\<close>: the result of \<open>Close()\<close> is dropped, every tracked file is removed with the
  result dropped, and \<open>nil\<close> is returned.
\<close>

definition Destroy ::
  "fileSystemServiceDiscovery \<Rightarrow> error option \<times> fileSystemServiceDiscovery" where
  "Destroy fssd =
     (let fssd1 = fssd\<lparr>dynamicConfiguration := snd (Close (dynamicConfiguration fssd))\<rparr>;
          fssd2 = fold (\<lambda>f s. releaseAndRemoveRegistrationFiles s f) (map snd (fileMap fssd1)) fssd1
      in (None, fssd2))"

definition getContent :: "json \<Rightarrow> ServiceInstance \<Rightarrow> error + string" where
  "getContent j si = (case Marshal j si of Inl err \<Rightarrow> Inl err | Inr bytes \<Rightarrow> Inr bytes)"

text \<open>
  A method that returns \<open>error\<close> and mutates the receiver returns \<open>Inl err\<close>, or \<open>Inr\<close> of
  the receiver after the call when the error is \<open>nil\<close>.
\<close>

definition Register ::
  "json \<Rightarrow> fileSystemServiceDiscovery \<Rightarrow> ServiceInstance \<Rightarrow> error + fileSystemServiceDiscovery" where
  "Register j fssd inst =
     (let iid = getServiceInstanceId inst; sn = getServiceName inst
      in case getContent j inst of
           Inl err \<Rightarrow> Inl err
         | Inr c \<Rightarrow>
             (case PublishConfig (dynamicConfiguration fssd) iid sn c of
                Inl err \<Rightarrow> Inl (WithStack err)
              | Inr d \<Rightarrow>
                  Inr (fssd\<lparr>dynamicConfiguration := d,
                            fileMap := AList.update iid (GetPath d iid sn) (fileMap fssd)\<rparr>)))"

definition Update ::
  "json \<Rightarrow> fileSystemServiceDiscovery \<Rightarrow> ServiceInstance \<Rightarrow> error + fileSystemServiceDiscovery" where
  "Update j fssd inst = Register j fssd inst"

text \<open>\<open>Unregister\<close> deletes the tracking entry under \<open>instance.GetId()\<close>.\<close>

definition Unregister ::
  "fileSystemServiceDiscovery \<Rightarrow> ServiceInstance \<Rightarrow> error + fileSystemServiceDiscovery" where
  "Unregister fssd inst =
     (let iid = getServiceInstanceId inst; sn = getServiceName inst
      in case RemoveConfig (dynamicConfiguration fssd) iid sn of
           Inl err \<Rightarrow> Inl err
         | Inr d \<Rightarrow>
             Inr (fssd\<lparr>dynamicConfiguration := d,
                       fileMap := AList.delete (GetId inst) (fileMap fssd)\<rparr>))"

definition GetDefaultPageSize :: "fileSystemServiceDiscovery \<Rightarrow> int" where
  "GetDefaultPageSize fssd = 100"

text \<open>\<open>GetServices\<close>: the names of the directories under the store's root.\<close>

definition GetServices :: "fileSystemServiceDiscovery \<Rightarrow> string list" where
  "GetServices fssd = remdups (dirs (dynamicConfiguration fssd))"

text \<open>
  The body of the loop of \<open>GetInstances\<close>: a record whose read fails or whose content
  does not decode is skipped (the source logs it), any other is appended.
\<close>

definition appendInstance ::
  "json \<Rightarrow> fileSystemServiceDiscovery \<Rightarrow> string \<Rightarrow> string \<Rightarrow> ServiceInstance list
     \<Rightarrow> ServiceInstance list" where
  "appendInstance j fssd serviceName iid si =
     (case GetProperties (dynamicConfiguration fssd) iid serviceName of
        Inl err \<Rightarrow> si
      | Inr p \<Rightarrow>
          (case Unmarshal j p of
             Inl err \<Rightarrow> si
           | Inr dsi \<Rightarrow> si @ [dsi]))"

definition GetInstances ::
  "json \<Rightarrow> fileSystemServiceDiscovery \<Rightarrow> string \<Rightarrow> ServiceInstance slice" where
  "GetInstances j fssd serviceName =
     (case GetConfigKeysByGroup (dynamicConfiguration fssd) serviceName of
        Inl err \<Rightarrow> Some []
      | Inr keys \<Rightarrow> Some (fold (appendInstance j fssd serviceName) keys []))"

section \<open>Change events\<close>

text \<open>
  Modelled from the spec: the listener and event types of the \<open>registry\<close> package (not
  among the sources). A listener names the service it subscribes to; an event carries a
  service name and a slice of instances (section 6, change event shape).
\<close>

record ServiceInstancesChangedListener =
  ServiceName :: string

record ServiceInstancesChangedEvent =
  EventServiceName :: string
  Instances :: "ServiceInstance slice"

definition NewServiceInstancesChangedEvent ::
  "string \<Rightarrow> ServiceInstance slice \<Rightarrow> ServiceInstancesChangedEvent" where
  "NewServiceInstancesChangedEvent serviceName instances =
     \<lparr>EventServiceName = serviceName, Instances = instances\<rparr>"

text \<open>
  \<open>AddListener\<close>: its only statement is commented out in the source; it returns \<open>nil\<close>
  and the receiver is as before.
\<close>

definition AddListener ::
  "fileSystemServiceDiscovery \<Rightarrow> ServiceInstancesChangedListener
     \<Rightarrow> error + fileSystemServiceDiscovery" where
  "AddListener fssd listener = Inr fssd"

text \<open>
  The process-wide dispatcher (\<open>extension.GetGlobalDispatcher()\<close>) is the only way an event
  reaches a listener's callback. Its state is the sequence of events handed to it.
\<close>

type_synonym dispatcher = "ServiceInstancesChangedEvent list"

definition Dispatch :: "dispatcher \<Rightarrow> ServiceInstancesChangedEvent \<Rightarrow> dispatcher" where
  "Dispatch disp event = disp @ [event]"

definition DispatchEvent ::
  "fileSystemServiceDiscovery \<Rightarrow> dispatcher \<Rightarrow> ServiceInstancesChangedEvent
     \<Rightarrow> error option \<times> dispatcher" where
  "DispatchEvent fssd disp event = (None, Dispatch disp event)"

definition DispatchEventByServiceName ::
  "json \<Rightarrow> fileSystemServiceDiscovery \<Rightarrow> dispatcher \<Rightarrow> string \<Rightarrow> error option \<times> dispatcher" where
  "DispatchEventByServiceName j fssd disp serviceName =
     DispatchEvent fssd disp
       (NewServiceInstancesChangedEvent serviceName (GetInstances j fssd serviceName))"

definition DispatchEventForInstances ::
  "fileSystemServiceDiscovery \<Rightarrow> dispatcher \<Rightarrow> string \<Rightarrow> ServiceInstance slice
     \<Rightarrow> error option \<times> dispatcher" where
  "DispatchEventForInstances fssd disp serviceName instances =
     DispatchEvent fssd disp (NewServiceInstancesChangedEvent serviceName instances)"

text \<open>
  One call of a client method by a caller, on the pair of the client and the dispatcher:
  the error returned and the pair after the call. A method touches the dispatcher exactly
  where its source calls \<open>DispatchEvent\<close>.
\<close>

datatype call =
    CallRegister ServiceInstance
  | CallUpdate ServiceInstance
  | CallUnregister ServiceInstance
  | CallAddListener ServiceInstancesChangedListener
  | CallDispatchEventByServiceName string

definition returned ::
  "fileSystemServiceDiscovery \<Rightarrow> dispatcher \<Rightarrow> error + fileSystemServiceDiscovery
     \<Rightarrow> error option \<times> fileSystemServiceDiscovery \<times> dispatcher" where
  "returned fssd disp r =
     (case r of Inl err \<Rightarrow> (Some err, fssd, disp) | Inr fssd' \<Rightarrow> (None, fssd', disp))"

fun invoke ::
  "json \<Rightarrow> fileSystemServiceDiscovery \<times> dispatcher \<Rightarrow> call
     \<Rightarrow> error option \<times> fileSystemServiceDiscovery \<times> dispatcher" where
  "invoke j (fssd, disp) (CallRegister inst) = returned fssd disp (Register j fssd inst)"
| "invoke j (fssd, disp) (CallUpdate inst) = returned fssd disp (Update j fssd inst)"
| "invoke j (fssd, disp) (CallUnregister inst) = returned fssd disp (Unregister fssd inst)"
| "invoke j (fssd, disp) (CallAddListener listener) = returned fssd disp (AddListener fssd listener)"
| "invoke j (fssd, disp) (CallDispatchEventByServiceName serviceName) =
     (case DispatchEventByServiceName j fssd disp serviceName of (err, disp') \<Rightarrow> (err, fssd, disp'))"

text \<open>A sequence of calls: the errors returned, in order, and the final pair.\<close>

fun invokeAll ::
  "json \<Rightarrow> fileSystemServiceDiscovery \<times> dispatcher \<Rightarrow> call list
     \<Rightarrow> error option list \<times> fileSystemServiceDiscovery \<times> dispatcher" where
  "invokeAll j st [] = ([], st)"
| "invokeAll j st (c # cs) =
     (case invoke j st c of
        (err, st') \<Rightarrow> (case invokeAll j st' cs of (errs, st'') \<Rightarrow> (err # errs, st'')))"

section \<open>The constructor and the instance cache\<close>

text \<open>
  Modelled from the spec: the key of the file backend (\<open>constant.FILE_KEY\<close>, the protocol a
  backend configuration must declare, section 6) and the configuration entry of a
  discovery backend; neither package is among the sources. Of the entry the constructor
  reads \<open>Protocol\<close> only.
\<close>

definition FILE_KEY :: string where
  "FILE_KEY = ''file''"

record ServiceDiscoveryConfig =
  Protocol :: string

text \<open>
  What the constructor asks of its collaborators: the named backend configuration
  (\<open>config.GetBaseConfig().GetServiceDiscoveries\<close>), the home directory (\<open>file.Home\<close>) and
  the store factory (\<open>GetDynamicConfiguration\<close>, given the directory parameter of the URL).
\<close>

record collaborators =
  GetServiceDiscoveries :: "string \<Rightarrow> ServiceDiscoveryConfig option"
  Home :: "error + string"
  GetDynamicConfiguration :: "string \<Rightarrow> error + FileSystemDynamicConfiguration"

text \<open>
  The package-level state. A \<open>registry.ServiceDiscovery\<close> is a reference to a client: the
  index of the client among the objects allocated so far. \<open>factoryCalls\<close> counts the calls
  of the store factory.
\<close>

record package_state =
  instanceMap :: "string \<rightharpoonup> nat"
  objects :: "fileSystemServiceDiscovery list"
  shutdownCallbacks :: "nat list"
  factoryCalls :: nat

text \<open>
  The loop at the end of the constructor: a do-nothing listener for every instance of
  every service already in the store.
\<close>

definition attachListeners :: "json \<Rightarrow> fileSystemServiceDiscovery \<Rightarrow> fileSystemServiceDiscovery" where
  "attachListeners j sd0 =
     fold (\<lambda>v sd.
         fold (\<lambda>i sd'.
             sd'\<lparr>dynamicConfiguration :=
                   AddListener_config (dynamicConfiguration sd') (getServiceInstanceId i)
                     RegistryConfigurationListener (getServiceName i)\<rparr>)
           (elems (GetInstances j sd v)) sd)
       (GetServices sd0) sd0"

text \<open>
  \<open>newFileSystemServiceDiscovery\<close>, run by one caller at a time (the lock is then always
  free): the lookup, the second lookup under the lock, the checks of the configuration,
  the construction. \<open>path.Join(rp, ".dubbo", "registry")\<close> is written as a concatenation
  (the home directory has no trailing slash). No statement of the source assigns to
  \<open>instanceMap\<close>.
\<close>

definition newFileSystemServiceDiscovery ::
  "collaborators \<Rightarrow> json \<Rightarrow> package_state \<Rightarrow> string \<Rightarrow> (error + nat) \<times> package_state" where
  "newFileSystemServiceDiscovery env j ps name =
     (case instanceMap ps name of
        Some inst \<Rightarrow> (Inr inst, ps)
      | None \<Rightarrow>
          (case instanceMap ps name of
             Some inst \<Rightarrow> (Inr inst, ps)
           | None \<Rightarrow>
               (case GetServiceDiscoveries env name of
                  None \<Rightarrow>
                    (Inl (New ''could not init the instance because the config is invalid''), ps)
                | Some sdc \<Rightarrow>
                    if Protocol sdc \<noteq> FILE_KEY
                    then (Inl (New ''could not init the instance because the config is invalid''), ps)
                    else
                      (case Home env of
                         Inl err \<Rightarrow> (Inl (WithStack err), ps)
                       | Inr rp \<Rightarrow>
                           (let p = rp @ ''/.dubbo/registry'';
                                ps1 = ps\<lparr>factoryCalls := factoryCalls ps + 1\<rparr>
                            in case GetDynamicConfiguration env p of
                                 Inl err \<Rightarrow>
                                   (Inl (New (''could not find the config for name: '' @ name)), ps1)
                               | Inr c \<Rightarrow>
                                   (let sd = \<lparr>dynamicConfiguration = c, rootPath = p, fileMap = []\<rparr>;
                                        ref = length (objects ps1);
                                        ps2 = ps1\<lparr>shutdownCallbacks := shutdownCallbacks ps1 @ [ref]\<rparr>
                                    in (Inr ref,
                                        ps2\<lparr>objects := objects ps2 @ [attachListeners j sd]\<rparr>)))))))"

section \<open>Concrete inputs\<close>

text \<open>
  A codec given by a table of (instance, document) pairs: it encodes the listed instances
  and decodes the listed documents, and fails on anything else.
\<close>

definition tableCodec :: "(ServiceInstance \<times> string) list \<Rightarrow> json" where
  "tableCodec tbl =
     \<lparr>Marshal = (\<lambda>x. case map_of tbl x of
                        Some s \<Rightarrow> Inr s
                      | None \<Rightarrow> Inl SerializationError),
      Unmarshal = (\<lambda>s. case map_of (map (\<lambda>r. (snd r, fst r)) tbl) s of
                          Some x \<Rightarrow> Inr x
                        | None \<Rightarrow> Inl SerializationError)\<rparr>"

definition greeter :: ServiceInstance where
  "greeter =
     \<lparr>GetId = '''', GetServiceName = ''Greeter'', GetHost = ''h1'', GetPort = 20880,
      GetMetadata = Map.empty, IsHealthy = True\<rparr>"

definition greeter2 :: ServiceInstance where
  "greeter2 =
     \<lparr>GetId = ''g2'', GetServiceName = ''Greeter'', GetHost = ''h2'', GetPort = 20881,
      GetMetadata = Map.empty, IsHealthy = True\<rparr>"

definition tenZero :: ServiceInstance where
  "tenZero =
     \<lparr>GetId = '''', GetServiceName = ''Greeter'', GetHost = ''10.0.0.1'', GetPort = 8080,
      GetMetadata = Map.empty, IsHealthy = True\<rparr>"

definition greeterDoc :: string where
  \<open>greeterDoc =
     ''{"id":"","serviceName":"Greeter","host":"h1","port":20880,"metadata":{},"healthy":true}''\<close>

definition greeter2Doc :: string where
  \<open>greeter2Doc =
     ''{"id":"g2","serviceName":"Greeter","host":"h2","port":20881,"metadata":{},"healthy":true}''\<close>

definition tenZeroDoc :: string where
  \<open>tenZeroDoc =
     ''{"id":"","serviceName":"Greeter","host":"10.0.0.1","port":8080,"metadata":{},"healthy":true}''\<close>

definition testCodec :: json where
  "testCodec = tableCodec [(greeter, greeterDoc), (greeter2, greeter2Doc), (tenZero, tenZeroDoc)]"

text \<open>An empty store in which no call fails, and a client on it.\<close>

definition emptyStore :: FileSystemDynamicConfiguration where
  "emptyStore =
     \<lparr>files = [], dirs = [], configListeners = [], root = ''/home/u/.dubbo/registry'', closed = False,
      publishFault = (\<lambda>key grp. None), removeFault = (\<lambda>key grp. None),
      readFault = (\<lambda>key grp. None), listFault = (\<lambda>grp. None), closeFault = None,
      osRemoveFault = (\<lambda>name. None)\<rparr>"

definition emptyClient :: fileSystemServiceDiscovery where
  "emptyClient =
     \<lparr>dynamicConfiguration = emptyStore, rootPath = ''/home/u/.dubbo/registry'', fileMap = []\<rparr>"

text \<open>
  A store in which closing fails, a tracked file cannot be removed and one record is
  corrupted, and a client on it that tracks two files.
\<close>

definition faultyStore :: FileSystemDynamicConfiguration where
  "faultyStore =
     emptyStore
       \<lparr>files := [((''Greeter'', ''h1.20880''), greeterDoc),
                 ((''Greeter'', ''broken''), ''{not json''),
                 ((''Greeter'', ''g2''), greeter2Doc),
                 ((''Greeter'', ''locked''), tenZeroDoc)],
        dirs := [''Greeter''],
        readFault := (\<lambda>key grp. if key = ''locked'' then Some StoreIOError else None),
        closeFault := Some StoreIOError,
        osRemoveFault := (\<lambda>name. Some StoreIOError)\<rparr>"

definition faultyClient :: fileSystemServiceDiscovery where
  "faultyClient =
     \<lparr>dynamicConfiguration = faultyStore, rootPath = ''/home/u/.dubbo/registry'',
      fileMap = [(''h1.20880'', ''/home/u/.dubbo/registry/Greeter/h1.20880''),
                 (''g2'', ''/home/u/.dubbo/registry/Greeter/g2'')]\<rparr>"

text \<open>A metric configuration whose global interval is exactly one second.\<close>

definition oneSecondConfig :: MetricConfig where
  "oneSecondConfig =
     \<lparr>Manager = '''', MaxSubCategoryCount = 0, GlobalInterval = Second,
      LevelInterval = Some [1 \<mapsto> 500000000], MaxMetricCountPerRegistry = 0,
      MaxCompassErrorCodeCount = 0, MaxCompassAddonCount = 0\<rparr>"

text \<open>
  Collaborators that know one backend, \<open>backendA\<close>, of the file protocol, and a factory
  that always produces an empty store; the package state at start-up.
\<close>

definition backendA :: collaborators where
  "backendA =
     \<lparr>GetServiceDiscoveries =
        (\<lambda>name. if name = ''backendA'' then Some \<lparr>Protocol = ''file''\<rparr> else None),
      Home = Inr ''/home/u'',
      GetDynamicConfiguration = (\<lambda>p. Inr (emptyStore\<lparr>root := p\<rparr>))\<rparr>"

definition startUp :: package_state where
  "startUp = \<lparr>instanceMap = Map.empty, objects = [], shutdownCallbacks = [], factoryCalls = 0\<rparr>"

text \<open>
  The clients after \<open>Register greeter\<close>, after \<open>Register greeter2\<close> as well, and after
  \<open>Unregister greeter\<close> then.
\<close>

definition registeredGreeter :: fileSystemServiceDiscovery where
  "registeredGreeter =
     \<lparr>dynamicConfiguration =
        emptyStore\<lparr>files := [((''Greeter'', ''h1.20880''), greeterDoc)], dirs := [''Greeter'']\<rparr>,
      rootPath = ''/home/u/.dubbo/registry'',
      fileMap = [(''h1.20880'', ''/home/u/.dubbo/registry/Greeter/h1.20880'')]\<rparr>"

definition registeredBoth :: fileSystemServiceDiscovery where
  "registeredBoth =
     \<lparr>dynamicConfiguration =
        emptyStore\<lparr>files := [((''Greeter'', ''h1.20880''), greeterDoc),
                              ((''Greeter'', ''g2''), greeter2Doc)],
                   dirs := [''Greeter'']\<rparr>,
      rootPath = ''/home/u/.dubbo/registry'',
      fileMap = [(''h1.20880'', ''/home/u/.dubbo/registry/Greeter/h1.20880''),
                 (''g2'', ''/home/u/.dubbo/registry/Greeter/g2'')]\<rparr>"


text \<open>The store after its only record has been removed: the directory of the group stays.\<close>

definition emptiedStore :: FileSystemDynamicConfiguration where
  "emptiedStore = emptyStore\<lparr>dirs := [''Greeter'']\<rparr>"






text \<open>The client after \<open>Register tenZero\<close> on the empty one.\<close>

definition registeredTenZero :: fileSystemServiceDiscovery where
  "registeredTenZero =
     \<lparr>dynamicConfiguration =
        emptyStore\<lparr>files := [((''Greeter'', ''10.0.0.1.8080''), tenZeroDoc)], dirs := [''Greeter'']\<rparr>,
      rootPath = ''/home/u/.dubbo/registry'',
      fileMap = [(''10.0.0.1.8080'', ''/home/u/.dubbo/registry/Greeter/10.0.0.1.8080'')]\<rparr>"

text \<open>The package state after one call of the constructor for \<open>backendA\<close>, and after two.\<close>

definition afterFirstCall :: package_state where
  "afterFirstCall =
     \<lparr>instanceMap = Map.empty, objects = [emptyClient], shutdownCallbacks = [0], factoryCalls = 1\<rparr>"

definition afterSecondCall :: package_state where
  "afterSecondCall =
     \<lparr>instanceMap = Map.empty, objects = [emptyClient, emptyClient], shutdownCallbacks = [0, 1],
      factoryCalls = 2\<rparr>"

section \<open>An invariant of the store\<close>

text \<open>
  Every record that decodes is stored under the identifier of the instance it decodes to.
  \<open>Register\<close> writes such records when decoding inverts encoding.
\<close>

definition keysMatchIds :: "json \<Rightarrow> FileSystemDynamicConfiguration \<Rightarrow> bool" where
  "keysMatchIds j d =
     list_all (\<lambda>r. case Unmarshal j (snd r) of
                      Inl err \<Rightarrow> True
                    | Inr i \<Rightarrow> getServiceInstanceId i = snd (fst r))
       (files d)"

section \<open>Evaluation lemmas\<close>

lemma FormatUint_digit: "n < 10 \<Longrightarrow> FormatUint n = [digit_char n]"
  by (simp add: FormatUint.simps)

lemma FormatUint_step:
  "\<not> n < 10 \<Longrightarrow> FormatUint n = FormatUint (n div 10) @ [digit_char (n mod 10)]"
  by (subst FormatUint.simps) simp

lemmas Itoa_eval = Itoa_def FormatUint_digit FormatUint_step digit_char_def

lemma id_greeter: "getServiceInstanceId greeter = ''h1.20880''"
  by (simp add: getServiceInstanceId_def greeter_def Itoa_eval)

lemma id_tenZero: "getServiceInstanceId tenZero = ''10.0.0.1.8080''"
  by (simp add: getServiceInstanceId_def tenZero_def Itoa_eval)

lemma id_greeter2: "getServiceInstanceId greeter2 = ''g2''"
  by (simp add: getServiceInstanceId_def greeter2_def)

lemma instances_distinct:
  "greeter \<noteq> greeter2" "greeter \<noteq> tenZero" "greeter2 \<noteq> tenZero"
  "greeter2 \<noteq> greeter" "tenZero \<noteq> greeter" "tenZero \<noteq> greeter2"
  by (simp_all add: greeter_def greeter2_def tenZero_def)

lemma docs_distinct:
  "greeterDoc \<noteq> greeter2Doc" "greeterDoc \<noteq> tenZeroDoc" "greeter2Doc \<noteq> tenZeroDoc"
  "greeter2Doc \<noteq> greeterDoc" "tenZeroDoc \<noteq> greeterDoc" "tenZeroDoc \<noteq> greeter2Doc"
  by (simp_all add: greeterDoc_def greeter2Doc_def tenZeroDoc_def)

lemma Marshal_testCodec:
  "Marshal testCodec greeter = Inr greeterDoc"
  "Marshal testCodec greeter2 = Inr greeter2Doc"
  "Marshal testCodec tenZero = Inr tenZeroDoc"
  by (simp_all add: testCodec_def tableCodec_def instances_distinct)

lemma Unmarshal_testCodec:
  "Unmarshal testCodec greeterDoc = Inr greeter"
  "Unmarshal testCodec greeter2Doc = Inr greeter2"
  "Unmarshal testCodec tenZeroDoc = Inr tenZero"
  by (simp_all add: testCodec_def tableCodec_def docs_distinct)

lemma testCodec_round_trip: "Marshal testCodec x = Inr c \<Longrightarrow> Unmarshal testCodec c = Inr x"
  by (auto simp add: testCodec_def tableCodec_def docs_distinct split: if_splits)

lemma name_testInstances:
  "getServiceName greeter = ''Greeter''" "getServiceName greeter2 = ''Greeter''"
  "getServiceName tenZero = ''Greeter''"
  by (simp_all add: getServiceName_def greeter_def greeter2_def tenZero_def)

lemma GetId_testInstances: "GetId greeter = ''''" "GetId greeter2 = ''g2''" "GetId tenZero = ''''"
  by (simp_all add: greeter_def greeter2_def tenZero_def)

lemma Unmarshal_broken: "Unmarshal testCodec ''{not json'' = Inl SerializationError"
  by (simp add: testCodec_def tableCodec_def greeterDoc_def greeter2Doc_def tenZeroDoc_def)

lemmas eval_ops = Register_def Unregister_def getContent_def PublishConfig_def RemoveConfig_def
  GetPath_def Let_def Marshal_testCodec id_greeter id_greeter2 id_tenZero name_testInstances

lemma Register_emptyClient_greeter: "Register testCodec emptyClient greeter = Inr registeredGreeter"
  by (simp add: eval_ops emptyClient_def emptyStore_def registeredGreeter_def)

lemma Register_registeredGreeter_greeter2:
  "Register testCodec registeredGreeter greeter2 = Inr registeredBoth"
  by (simp add: eval_ops emptyStore_def registeredGreeter_def registeredBoth_def)

lemma Register_emptyClient_tenZero: "Register testCodec emptyClient tenZero = Inr registeredTenZero"
  by (simp add: eval_ops emptyClient_def emptyStore_def registeredTenZero_def)



lemma keys_faultyStore:
  "GetConfigKeysByGroup faultyStore ''Greeter'' = Inr [''h1.20880'', ''broken'', ''g2'', ''locked'']"
  by (simp add: GetConfigKeysByGroup_def faultyStore_def emptyStore_def)








section \<open>The results of the operations\<close>

text \<open>When \<open>Register\<close> and \<open>Unregister\<close> return no error, and the client they leave.\<close>

lemma Register_Inr:
  "Register j fssd x = Inr fssd' \<longleftrightarrow>
     (\<exists>c. Marshal j x = Inr c
        \<and> publishFault (dynamicConfiguration fssd) (getServiceInstanceId x) (getServiceName x) = None
        \<and> fssd' = fssd
            \<lparr>dynamicConfiguration :=
               (dynamicConfiguration fssd)
                 \<lparr>files := AList.update (getServiceName x, getServiceInstanceId x) c
                             (files (dynamicConfiguration fssd)),
                  dirs := (if getServiceName x \<in> set (dirs (dynamicConfiguration fssd))
                           then dirs (dynamicConfiguration fssd)
                           else dirs (dynamicConfiguration fssd) @ [getServiceName x])\<rparr>,
             fileMap := AList.update (getServiceInstanceId x)
                          (GetPath (dynamicConfiguration fssd) (getServiceInstanceId x) (getServiceName x))
                          (fileMap fssd)\<rparr>)"
  by (cases "Marshal j x";
      cases "publishFault (dynamicConfiguration fssd) (getServiceInstanceId x) (getServiceName x)")
     (auto simp add: Register_def getContent_def PublishConfig_def GetPath_def Let_def)

lemma Unregister_Inr:
  "Unregister fssd x = Inr fssd' \<longleftrightarrow>
     (removeFault (dynamicConfiguration fssd) (getServiceInstanceId x) (getServiceName x) = None
        \<and> fssd' = fssd
            \<lparr>dynamicConfiguration :=
               (dynamicConfiguration fssd)
                 \<lparr>files := AList.delete (getServiceName x, getServiceInstanceId x)
                             (files (dynamicConfiguration fssd))\<rparr>,
             fileMap := AList.delete (GetId x) (fileMap fssd)\<rparr>)"
  by (cases "removeFault (dynamicConfiguration fssd) (getServiceInstanceId x) (getServiceName x)")
     (auto simp add: Unregister_def RemoveConfig_def Let_def)

text \<open>The loop of \<open>GetInstances\<close>: every key adds what the loop body adds to an empty slice.\<close>

lemma appendInstance_append:
  "appendInstance j fssd sn k acc = acc @ appendInstance j fssd sn k []"
  by (simp add: appendInstance_def split: sum.splits)

lemma fold_appendInstance:
  "fold (appendInstance j fssd sn) keys acc =
     acc @ concat (map (\<lambda>k. appendInstance j fssd sn k []) keys)"
proof (induction keys arbitrary: acc)
  case Nil
  show ?case by simp
next
  case (Cons k keys)
  have "fold (appendInstance j fssd sn) (k # keys) acc =
          fold (appendInstance j fssd sn) keys (acc @ appendInstance j fssd sn k [])"
    using appendInstance_append [of j fssd sn k acc] by simp
  also have "\<dots> = (acc @ appendInstance j fssd sn k [])
                    @ concat (map (\<lambda>k. appendInstance j fssd sn k []) keys)"
    by (rule Cons.IH)
  finally show ?case by simp
qed

lemma GetInstances_eq:
  "GetInstances j fssd sn =
     Some (case GetConfigKeysByGroup (dynamicConfiguration fssd) sn of
             Inl err \<Rightarrow> []
           | Inr keys \<Rightarrow> concat (map (\<lambda>k. appendInstance j fssd sn k []) keys))"
  by (simp add: GetInstances_def fold_appendInstance split: sum.splits)




lemma set_update_subset: "set (AList.update k v al) \<subseteq> insert (k, v) (set al)"
  by (induction al) auto

lemma set_delete_subset: "set (AList.delete k al) \<subseteq> set al"
  by (induction al) auto

text \<open>
  The invariant holds in an empty store and is kept by \<open>Register\<close> (when decoding inverts
  encoding) and by \<open>Unregister\<close>.
\<close>

lemma keysMatchIds_iff:
  "keysMatchIds j d \<longleftrightarrow>
     (\<forall>g k c i. ((g, k), c) \<in> set (files d) \<longrightarrow> Unmarshal j c = Inr i \<longrightarrow> getServiceInstanceId i = k)"
  by (fastforce simp add: keysMatchIds_def list_all_iff split: sum.splits)

lemma keysMatchIds_emptyStore: "keysMatchIds j emptyStore"
  by (simp add: keysMatchIds_def emptyStore_def)

lemma keysMatchIds_Register:
  assumes "Register j fssd x = Inr fssd'"
    and "\<forall>c. Marshal j x = Inr c \<longrightarrow> Unmarshal j c = Inr x"
    and "keysMatchIds j (dynamicConfiguration fssd)"
  shows "keysMatchIds j (dynamicConfiguration fssd')"
proof -
  from assms(1) obtain c where c: "Marshal j x = Inr c"
    and files': "files (dynamicConfiguration fssd') =
       AList.update (getServiceName x, getServiceInstanceId x) c (files (dynamicConfiguration fssd))"
    by (auto simp add: Register_Inr)
  from assms(2) c have dec: "Unmarshal j c = Inr x" by simp
  show ?thesis
    unfolding keysMatchIds_iff
  proof (intro allI impI)
    fix g k c' i
    assume mem: "((g, k), c') \<in> set (files (dynamicConfiguration fssd'))"
      and i: "Unmarshal j c' = Inr i"
    from mem files' set_update_subset
    have "((g, k), c') = ((getServiceName x, getServiceInstanceId x), c)
            \<or> ((g, k), c') \<in> set (files (dynamicConfiguration fssd))"
      by fastforce
    then show "getServiceInstanceId i = k"
    proof
      assume "((g, k), c') = ((getServiceName x, getServiceInstanceId x), c)"
      with dec i show ?thesis by simp
    next
      assume "((g, k), c') \<in> set (files (dynamicConfiguration fssd))"
      with assms(3) i show ?thesis unfolding keysMatchIds_iff by blast
    qed
  qed
qed

lemma keysMatchIds_Unregister:
  assumes "Unregister fssd x = Inr fssd'" and "keysMatchIds j (dynamicConfiguration fssd)"
  shows "keysMatchIds j (dynamicConfiguration fssd')"
proof -
  from assms(1) have "files (dynamicConfiguration fssd') =
      AList.delete (getServiceName x, getServiceInstanceId x) (files (dynamicConfiguration fssd))"
    by (simp add: Unregister_Inr)
  then have "set (files (dynamicConfiguration fssd')) \<subseteq> set (files (dynamicConfiguration fssd))"
    by (simp add: set_delete_subset)
  with assms(2) show ?thesis unfolding keysMatchIds_iff by blast
qed

text \<open>So every sequence of calls keeps the invariant.\<close>

lemma keysMatchIds_invoke:
  assumes codec: "\<forall>x c. Marshal j x = Inr c \<longrightarrow> Unmarshal j c = Inr x"
    and inv: "keysMatchIds j (dynamicConfiguration fssd)"
  shows "keysMatchIds j (dynamicConfiguration (fst (snd (invoke j (fssd, disp) c))))"
proof (cases c)
  case (CallRegister inst)
  show ?thesis
  proof (cases "Register j fssd inst")
    case (Inl err)
    with CallRegister inv show ?thesis by (simp add: returned_def)
  next
    case (Inr fssd')
    with codec inv have "keysMatchIds j (dynamicConfiguration fssd')"
      using keysMatchIds_Register [of j fssd inst fssd'] by blast
    with CallRegister Inr show ?thesis by (simp add: returned_def)
  qed
next
  case (CallUpdate inst)
  show ?thesis
  proof (cases "Register j fssd inst")
    case (Inl err)
    with CallUpdate inv show ?thesis by (simp add: returned_def Update_def)
  next
    case (Inr fssd')
    with codec inv have "keysMatchIds j (dynamicConfiguration fssd')"
      using keysMatchIds_Register [of j fssd inst fssd'] by blast
    with CallUpdate Inr show ?thesis by (simp add: returned_def Update_def)
  qed
next
  case (CallUnregister inst)
  show ?thesis
  proof (cases "Unregister fssd inst")
    case (Inl err)
    with CallUnregister inv show ?thesis by (simp add: returned_def)
  next
    case (Inr fssd')
    with inv have "keysMatchIds j (dynamicConfiguration fssd')"
      using keysMatchIds_Unregister [of fssd inst fssd' j] by blast
    with CallUnregister Inr show ?thesis by (simp add: returned_def)
  qed
next
  case (CallAddListener listener)
  with inv show ?thesis by (simp add: returned_def AddListener_def)
next
  case (CallDispatchEventByServiceName serviceName)
  with inv show ?thesis by (simp add: DispatchEventByServiceName_def DispatchEvent_def)
qed

lemma keysMatchIds_invokeAll:
  assumes codec: "\<forall>x c. Marshal j x = Inr c \<longrightarrow> Unmarshal j c = Inr x"
  shows "keysMatchIds j (dynamicConfiguration fssd) \<Longrightarrow>
           keysMatchIds j (dynamicConfiguration (fst (snd (invokeAll j (fssd, disp) cs))))"
proof (induction cs arbitrary: fssd disp)
  case Nil
  then show ?case by simp
next
  case (Cons c cs)
  obtain err fssd1 disp1 where step: "invoke j (fssd, disp) c = (err, fssd1, disp1)"
    by (cases "invoke j (fssd, disp) c") auto
  with codec Cons.prems have "keysMatchIds j (dynamicConfiguration fssd1)"
    using keysMatchIds_invoke [of j fssd disp c] by simp
  then have "keysMatchIds j (dynamicConfiguration (fst (snd (invokeAll j (fssd1, disp1) cs))))"
    by (rule Cons.IH)
  with step show ?case by (cases "invokeAll j (fssd1, disp1) cs") simp
qed

section \<open>The interval accessors\<close>

text \<open>
  C10. \<open>GetGlobalInterval\<close> returns the configured \<open>GlobalInterval\<close> only when it is
  strictly greater than one second (10^9 nanoseconds, compared as signed values); for every
  other value, one second itself, zero and the negative ones included, it returns the
  default of 60 seconds. \<open>GetLevelInterval\<close> falls back to \<open>GetGlobalInterval\<close> whenever
  the map is nil, or has no entry for the level, or has one below one second.
\<close>

theorem GetGlobalInterval_above_one_second:
  "GetGlobalInterval mc =
     (if 1000000000 < sint (GlobalInterval mc) then GlobalInterval mc else defaultGlobalInterval)
   \<and> sint defaultGlobalInterval = 60 * 1000000000
   \<and> (GlobalInterval mc = Second \<longrightarrow> GetGlobalInterval mc = defaultGlobalInterval)
   \<and> ((LevelInterval mc = None
        \<or> (\<exists>m. LevelInterval mc = Some m
               \<and> (m l = None \<or> (\<exists>r. m l = Some r \<and> sint r < 1000000000))))
       \<longrightarrow> GetLevelInterval mc l = GetGlobalInterval mc)"
  by (auto simp add: GetGlobalInterval_def GetLevelInterval_def Second_def
      defaultGlobalInterval_def word_sle_eq)

theorem GetGlobalInterval_above_one_second_witness:
  "GlobalInterval oneSecondConfig = Second
   \<and> sint (GlobalInterval oneSecondConfig) = 1000000000
   \<and> GetGlobalInterval oneSecondConfig = defaultGlobalInterval
   \<and> sint (GetGlobalInterval oneSecondConfig) = 60000000000
   \<and> GetLevelInterval oneSecondConfig 1 = defaultGlobalInterval
   \<and> GetLevelInterval oneSecondConfig 2 = defaultGlobalInterval"
  using GetGlobalInterval_above_one_second [of oneSecondConfig 1]
    GetGlobalInterval_above_one_second [of oneSecondConfig 2]
  by (simp add: oneSecondConfig_def Second_def)

section \<open>The identifier of an instance\<close>

text \<open>
  C8. The identifier of an instance whose id is empty is its host, a dot and the decimal
  rendering of its port; a non-empty id is the identifier unchanged. An instance with an
  empty id, host 10.0.0.1 and port 8080 has the identifier 10.0.0.1.8080. \<open>Register\<close>
  stores the record under that identifier in the group of the service name, and
  \<open>Unregister\<close> deletes the record under it.
\<close>

theorem getServiceInstanceId_derived:
  "getServiceInstanceId si =
     (if GetId si = '''' then GetHost si @ ''.'' @ Itoa (GetPort si) else GetId si)
   \<and> Itoa 8080 = ''8080''
   \<and> (GetId si = '''' \<and> GetHost si = ''10.0.0.1'' \<and> GetPort si = 8080
        \<longrightarrow> getServiceInstanceId si = ''10.0.0.1.8080'')
   \<and> (\<forall>fssd'. Register j fssd si = Inr fssd' \<longrightarrow>
          (\<exists>c. Marshal j si = Inr c
             \<and> map_of (files (dynamicConfiguration fssd')) (GetServiceName si, getServiceInstanceId si)
                 = Some c))
   \<and> (\<forall>fssd'. Unregister fssd si = Inr fssd' \<longrightarrow>
          files (dynamicConfiguration fssd')
            = AList.delete (GetServiceName si, getServiceInstanceId si)
                (files (dynamicConfiguration fssd)))"
proof -
  have itoa: "Itoa 8080 = ''8080''" by (simp add: Itoa_eval)
  have derived: "getServiceInstanceId si = ''10.0.0.1.8080''"
    if "GetId si = ''''" "GetHost si = ''10.0.0.1''" "GetPort si = 8080"
    using that itoa by (simp add: getServiceInstanceId_def)
  have reg: "\<exists>c. Marshal j si = Inr c
             \<and> map_of (files (dynamicConfiguration fssd')) (GetServiceName si, getServiceInstanceId si)
                 = Some c" if "Register j fssd si = Inr fssd'" for fssd'
    using that by (auto simp add: Register_Inr getServiceName_def update_conv')
  have unreg: "files (dynamicConfiguration fssd')
            = AList.delete (GetServiceName si, getServiceInstanceId si)
                (files (dynamicConfiguration fssd))" if "Unregister fssd si = Inr fssd'" for fssd'
    using that by (simp add: Unregister_Inr getServiceName_def)
  have def: "getServiceInstanceId si =
     (if GetId si = '''' then GetHost si @ ''.'' @ Itoa (GetPort si) else GetId si)"
    by (simp add: getServiceInstanceId_def)
  from def itoa derived reg unreg show ?thesis by blast
qed

theorem getServiceInstanceId_derived_witness:
  "GetId tenZero = '''' \<and> GetHost tenZero = ''10.0.0.1'' \<and> GetPort tenZero = 8080
   \<and> getServiceInstanceId tenZero = ''10.0.0.1.8080''
   \<and> Register testCodec emptyClient tenZero = Inr registeredTenZero
   \<and> map_of (files (dynamicConfiguration registeredTenZero)) (''Greeter'', ''10.0.0.1.8080'') = Some tenZeroDoc
   \<and> Unregister registeredTenZero tenZero = Inr (registeredTenZero\<lparr>dynamicConfiguration := emptiedStore\<rparr>)"
proof -
  have fields: "GetId tenZero = ''''" "GetHost tenZero = ''10.0.0.1''" "GetPort tenZero = 8080"
    "GetServiceName tenZero = ''Greeter''"
    by (simp_all add: tenZero_def)
  have unreg: "Unregister registeredTenZero tenZero =
      Inr (registeredTenZero\<lparr>dynamicConfiguration := emptiedStore\<rparr>)"
    by (simp add: eval_ops registeredTenZero_def emptiedStore_def emptyStore_def fields)
  have stored: "map_of (files (dynamicConfiguration registeredTenZero)) (''Greeter'', ''10.0.0.1.8080'') = Some tenZeroDoc"
    by (simp add: registeredTenZero_def)
  have derived: "getServiceInstanceId tenZero = ''10.0.0.1.8080''"
    using getServiceInstanceId_derived [of tenZero testCodec emptyClient] fields by blast
  from fields derived Register_emptyClient_tenZero stored unreg show ?thesis by simp
qed

section \<open>Listing the instances of a service\<close>

text \<open>
  C7. \<open>GetInstances\<close> returns an allocated slice, never \<open>nil\<close>. When the listing of
  the group's keys succeeds, every key contributes the instance its record decodes to, and
  nothing when its read fails or its content does not decode; the other records are all
  returned. When the listing fails, or the group has no keys, or does not exist, the
  slice is empty.
\<close>

theorem GetInstances_skips_failed_records:
  "GetInstances j fssd sn =
     Some (case GetConfigKeysByGroup (dynamicConfiguration fssd) sn of
             Inl err \<Rightarrow> []
           | Inr keys \<Rightarrow>
               concat (map (\<lambda>k. case GetProperties (dynamicConfiguration fssd) k sn of
                                   Inl err \<Rightarrow> []
                                 | Inr p \<Rightarrow> (case Unmarshal j p of Inl err \<Rightarrow> [] | Inr i \<Rightarrow> [i]))
                        keys))
   \<and> GetInstances j fssd sn \<noteq> None
   \<and> ((\<exists>err. GetConfigKeysByGroup (dynamicConfiguration fssd) sn = Inl err)
        \<longrightarrow> GetInstances j fssd sn = Some [])
   \<and> (GetConfigKeysByGroup (dynamicConfiguration fssd) sn = Inr []
        \<longrightarrow> GetInstances j fssd sn = Some [])
   \<and> (sn \<notin> (fst \<circ> fst) ` set (files (dynamicConfiguration fssd))
        \<longrightarrow> GetInstances j fssd sn = Some [])"
proof -
  have body: "(\<lambda>k. appendInstance j fssd sn k []) =
      (\<lambda>k. case GetProperties (dynamicConfiguration fssd) k sn of
              Inl err \<Rightarrow> []
            | Inr p \<Rightarrow> (case Unmarshal j p of Inl err \<Rightarrow> [] | Inr i \<Rightarrow> [i]))"
    by (rule ext) (simp add: appendInstance_def split: sum.splits)
  have nogroup: "filter (\<lambda>r. fst (fst r) = sn) (files (dynamicConfiguration fssd)) = []"
    if "sn \<notin> (fst \<circ> fst) ` set (files (dynamicConfiguration fssd))"
    using that by (auto simp add: filter_empty_conv)
  show ?thesis
    using nogroup
    by (auto simp add: GetInstances_eq body GetConfigKeysByGroup_def split: sum.splits option.splits)
qed

theorem GetInstances_skips_failed_records_witness:
  "GetInstances testCodec faultyClient ''Greeter'' = Some [greeter, greeter2]
   \<and> GetInstances testCodec faultyClient ''Absent'' = Some []
   \<and> GetInstances testCodec
        (faultyClient\<lparr>dynamicConfiguration := faultyStore\<lparr>listFault := (\<lambda>grp. Some StoreIOError)\<rparr>\<rparr>)
        ''Greeter'' = Some []"
  using GetInstances_skips_failed_records [of testCodec faultyClient "''Greeter''"]
    GetInstances_skips_failed_records [of testCodec faultyClient "''Absent''"]
    GetInstances_skips_failed_records [of testCodec "faultyClient\<lparr>dynamicConfiguration := faultyStore\<lparr>listFault := (\<lambda>grp. Some StoreIOError)\<rparr>\<rparr>" "''Greeter''"]
  by (simp add: faultyClient_def keys_faultyStore GetProperties_def Unmarshal_testCodec Unmarshal_broken
       GetConfigKeysByGroup_def faultyStore_def emptyStore_def)

section \<open>Registration\<close>




text \<open>
  C9. \<open>Update\<close> is \<open>Register\<close>: for every codec, client and instance it returns the same
  error, or leaves the same client.
\<close>

theorem Update_is_Register: "Update j fssd inst = Register j fssd inst"
  by (simp add: Update_def)

text \<open>
  C4. The tracking entry of an instance whose id is empty. \<open>Register\<close> of \<open>greeter\<close> (empty
  id, host h1, port 20880) on the empty client tracks its file under the derived identifier
  h1.20880; \<open>Unregister\<close> of the same instance then returns no error and the entry under
  h1.20880 is still there.
\<close>

theorem Unregister_keeps_entry_of_empty_id:
  "Register testCodec emptyClient greeter = Inr registeredGreeter
   \<and> map_of (fileMap registeredGreeter) (getServiceInstanceId greeter)
       = Some ''/home/u/.dubbo/registry/Greeter/h1.20880''
   \<and> Unregister registeredGreeter greeter =
       Inr (registeredGreeter\<lparr>dynamicConfiguration := emptiedStore\<rparr>)
   \<and> map_of (fileMap (registeredGreeter\<lparr>dynamicConfiguration := emptiedStore\<rparr>))
         (getServiceInstanceId greeter)
       = Some ''/home/u/.dubbo/registry/Greeter/h1.20880''"
  by (simp add: Register_emptyClient_greeter id_greeter)
     (simp add: eval_ops registeredGreeter_def emptiedStore_def emptyStore_def GetId_testInstances)

section \<open>Unregistration\<close>




section \<open>Listeners and events\<close>

text \<open>
  C2. \<open>AddListener\<close> returns no error and leaves the client as it
  was: the listener is recorded nowhere. \<open>Register\<close>, \<open>Update\<close> and \<open>Unregister\<close> hand no
  event to the dispatcher. \<open>DispatchEventByServiceName\<close> hands it one event, with the
  service name and the full list \<open>GetInstances\<close> returns for it.
\<close>

theorem listeners_get_events_by_dispatch_only:
  "AddListener fssd listener = Inr fssd
   \<and> invoke j (fssd, disp) (CallAddListener listener) = (None, fssd, disp)
   \<and> snd (snd (invoke j (fssd, disp) (CallRegister inst))) = disp
   \<and> snd (snd (invoke j (fssd, disp) (CallUpdate inst))) = disp
   \<and> snd (snd (invoke j (fssd, disp) (CallUnregister inst))) = disp
   \<and> invoke j (fssd, disp) (CallDispatchEventByServiceName sn) =
       (None, fssd, disp @ [\<lparr>EventServiceName = sn, Instances = GetInstances j fssd sn\<rparr>])"
  by (simp add: AddListener_def returned_def DispatchEventByServiceName_def DispatchEvent_def
      Dispatch_def NewServiceInstancesChangedEvent_def split: sum.splits)

text \<open>
  C2, a counterexample to delivery after every mutation: after \<open>AddListener\<close> for the
  service Greeter and a \<open>Register\<close> of an instance of Greeter, both returning no error,
  the dispatcher has received no event, so no callback has been invoked.
\<close>

theorem AddListener_Register_no_event:
  "invokeAll testCodec (emptyClient, [])
     [CallAddListener \<lparr>ServiceName = ''Greeter''\<rparr>, CallRegister greeter] =
   ([None, None], registeredGreeter, [])"
  by (simp add: AddListener_def returned_def Register_emptyClient_greeter)

section \<open>Destroy\<close>

lemma Destroy_nil: "fst (Destroy fssd) = None"
  by (simp add: Destroy_def Let_def)

lemma Close_faulty: "fst (Close (dynamicConfiguration faultyClient)) = Some StoreIOError"
  by (simp add: Close_def faultyClient_def faultyStore_def)

text \<open>
  C3. \<open>Destroy\<close> returns no error, whatever the client: also on \<open>faultyClient\<close>, whose store
  fails to close (and whose tracked files cannot be removed).
\<close>

theorem Destroy_drops_close_failure:
  "fst (Destroy fssd) = None
   \<and> fst (Close (dynamicConfiguration faultyClient)) = Some StoreIOError
   \<and> fst (Destroy faultyClient) = None"
  by (simp add: Destroy_nil Close_faulty)

section \<open>The constructor\<close>

lemma attachListeners_emptyClient: "attachListeners j emptyClient = emptyClient"
  by (simp add: attachListeners_def GetServices_def emptyClient_def emptyStore_def)

lemma factory_backendA: "GetDynamicConfiguration backendA ''/home/u/.dubbo/registry'' = Inr emptyStore"
  by (simp add: backendA_def emptyStore_def)

lemma instanceMap_unchanged: "instanceMap (snd (newFileSystemServiceDiscovery env j ps name)) = instanceMap ps"
  by (simp add: newFileSystemServiceDiscovery_def Let_def split: option.splits sum.splits)

lemma first_call_backendA: "newFileSystemServiceDiscovery backendA testCodec startUp ''backendA'' = (Inr 0, afterFirstCall)"
proof -
  have "instanceMap startUp ''backendA'' = None" by (simp add: startUp_def)
  moreover have "GetServiceDiscoveries backendA ''backendA'' = Some \<lparr>Protocol = ''file''\<rparr>"
    by (simp add: backendA_def)
  moreover have "Home backendA = Inr ''/home/u''" by (simp add: backendA_def)
  ultimately show ?thesis
    using factory_backendA attachListeners_emptyClient [of testCodec]
    by (simp add: newFileSystemServiceDiscovery_def Let_def FILE_KEY_def emptyClient_def)
       (simp add: startUp_def afterFirstCall_def emptyClient_def)
qed

lemma second_call_backendA: "newFileSystemServiceDiscovery backendA testCodec afterFirstCall ''backendA'' = (Inr 1, afterSecondCall)"
proof -
  have "instanceMap afterFirstCall ''backendA'' = None" by (simp add: afterFirstCall_def)
  moreover have "GetServiceDiscoveries backendA ''backendA'' = Some \<lparr>Protocol = ''file''\<rparr>"
    by (simp add: backendA_def)
  moreover have "Home backendA = Inr ''/home/u''" by (simp add: backendA_def)
  ultimately show ?thesis
    using factory_backendA attachListeners_emptyClient [of testCodec]
    by (simp add: newFileSystemServiceDiscovery_def Let_def FILE_KEY_def emptyClient_def)
       (simp add: afterFirstCall_def afterSecondCall_def emptyClient_def)
qed

text \<open>
  C1. The constructor never writes the cache. The first call for \<open>backendA\<close> at start-up
  succeeds and returns the client at reference 0, and \<open>instanceMap\<close> has no entry for
  \<open>backendA\<close> afterwards; the second call constructs again: it returns another client, at
  reference 1, and the store factory has been called twice. In general \<open>instanceMap\<close> is
  after a call what it was before.
\<close>

theorem newFileSystemServiceDiscovery_constructs_again:
  "newFileSystemServiceDiscovery backendA testCodec startUp ''backendA'' = (Inr 0, afterFirstCall)
   \<and> instanceMap afterFirstCall ''backendA'' = None
   \<and> newFileSystemServiceDiscovery backendA testCodec afterFirstCall ''backendA''
       = (Inr 1, afterSecondCall)
   \<and> factoryCalls afterSecondCall = 2
   \<and> length (objects afterSecondCall) = 2
   \<and> instanceMap (snd (newFileSystemServiceDiscovery env j ps name)) = instanceMap ps"
proof -
  have "instanceMap afterFirstCall ''backendA'' = None"
    by (simp add: afterFirstCall_def)
  moreover have "factoryCalls afterSecondCall = 2" and "length (objects afterSecondCall) = 2"
    by (simp_all add: afterSecondCall_def)
  ultimately show ?thesis
    by (simp add: first_call_backendA second_call_backendA instanceMap_unchanged)
qed

end
